theory Spec2Isabelle
  imports Complex_Main
begin

section \<open>Data model of the Reptile meta-training callback\<close>

text \<open>
  The embedding follows \<^verbatim>\<open>rl4co/utils/meta_trainer.py\<close> (class \<^verbatim>\<open>ReptileCallback\<close>)
  and \<^verbatim>\<open>rl4co/envs/scheduling/jssp/env.py\<close> (class \<^verbatim>\<open>JSSPEnv\<close>).

  Python exceptions are values of the type \<open>error\<close>. A hook that raises leaves the objects
  it has mutated so far as they are, so the result of a hook is an \<open>outcome\<close>: either
  \<open>Return\<close> with the state after the hook, or \<open>Raise\<close> with the exception and the state
  at the point of the raise.
\<close>

datatype error =
    NotImplementedError
  | ValueError
  | IndexError
  | KeyError string
  | ZeroDivisionError
  | AttributeError
  | RuntimeError

datatype 's outcome = Raise error 's | Return 's

text \<open>
  A task is the Python tuple \<^verbatim>\<open>(n,)\<close>, a list of integers here. A state dict maps parameter
  names to tensors; Python dicts keep insertion order, so it is an association list read
  with \<open>map_of\<close>. Tensors of the module are elements of a real vector space \<open>'t\<close>:
  addition, subtraction and scaling by a real are the tensor operations the callback uses,
  and floating-point rounding is not modelled.
\<close>

type_synonym task = "int list"

type_synonym 't state_dict = "(string \<times> 't) list"

text \<open>
  The attributes \<^verbatim>\<open>selected_tasks\<close>, \<^verbatim>\<open>w\<close>, \<^verbatim>\<open>meta_model_state_dict\<close> and \<^verbatim>\<open>task_models\<close> are not
  set by \<^verbatim>\<open>__init__\<close>; \<open>None\<close> is the attribute that does not exist yet, and reading it
  raises \<open>AttributeError\<close>.
\<close>

record 't ReptileCallback =
  num_tasks :: int
  alpha :: real
  alpha_decay :: real
  sch_bar :: real
  print_log :: bool
  task_set :: "task list"
  selected_tasks :: "task list option"
  w :: "real list option"
  meta_model_state_dict :: "'t state_dict option"
  task_models :: "'t state_dict list option"

text \<open>
  \<^verbatim>\<open>pl_module.env.generator\<close>: the field \<open>capacity\<close> is \<open>None\<close> when the generator has no
  attribute \<^verbatim>\<open>capacity\<close> (\<^verbatim>\<open>hasattr\<close> is false).
\<close>

record generator =
  num_loc :: int
  capacity :: "int option"

record 't pl_module =
  state_dict :: "'t state_dict"
  env_generator :: generator

record trainer =
  current_epoch :: int
  max_epochs :: int
  optimizer_lr :: real

section \<open>Python primitives\<close>

text \<open>\<^verbatim>\<open>xs[i]\<close> on a list: negative indices count from the end, out of range raises.\<close>

definition py_index :: "'a list \<Rightarrow> int \<Rightarrow> error + 'a" where
  "py_index xs i =
     (if 0 \<le> i \<and> i < int (length xs) then Inr (xs ! nat i)
      else if i < 0 \<and> - int (length xs) \<le> i then Inr (xs ! nat (int (length xs) + i))
      else Inl IndexError)"

text \<open>\<^verbatim>\<open>a % b\<close> on integers: floor remainder, as \<open>mod\<close> on \<open>int\<close>, but zero raises.\<close>

definition py_mod :: "int \<Rightarrow> int \<Rightarrow> error + int" where
  "py_mod a b = (if b = 0 then Inl ZeroDivisionError else Inr (a mod b))"

text \<open>\<^verbatim>\<open>int(x)\<close> on a float truncates towards zero.\<close>

definition py_int :: "real \<Rightarrow> int" where
  "py_int x = (if 0 \<le> x then \<lfloor>x\<rfloor> else \<lceil>x\<rceil>)"

text \<open>
  \<^verbatim>\<open>random.sample(population, 1)[0]\<close>: raises \<open>ValueError\<close> on an empty population,
  otherwise returns the element at a random position. The position is decided by the
  raw draw \<open>r\<close> of the random number generator, which is an input of the model.
\<close>

definition random_sample1 :: "'a list \<Rightarrow> nat \<Rightarrow> error + 'a" where
  "random_sample1 population r =
     (if population = [] then Inl ValueError
      else Inr (population ! (r mod length population)))"

text \<open>\<^verbatim>\<open>torch.softmax(torch.Tensor(w), dim=0)\<close> on a vector.\<close>

definition softmax :: "real list \<Rightarrow> real list" where
  "softmax xs = map (\<lambda>x. exp x / sum_list (map exp xs)) xs"

section \<open>The callback\<close>

text \<open>\<^verbatim>\<open>__init__\<close>: only the data type \<^verbatim>\<open>"size"\<close> is supported.\<close>

definition init ::
  "int \<Rightarrow> real \<Rightarrow> real \<Rightarrow> int \<Rightarrow> int \<Rightarrow> real \<Rightarrow> string \<Rightarrow> bool \<Rightarrow> error + 't ReptileCallback" where
  "init n a a_decay min_size max_size bar data_type plog =
     (if data_type = ''size'' then
        Inr \<lparr>num_tasks = n, alpha = a, alpha_decay = a_decay, sch_bar = bar,
             print_log = plog, task_set = map (\<lambda>n. [n]) [min_size..max_size],
             selected_tasks = None, w = None, meta_model_state_dict = None,
             task_models = None\<rparr>
      else Inl NotImplementedError)"

text \<open>\<^verbatim>\<open>_alpha_scheduler\<close>\<close>

definition alpha_scheduler :: "'t ReptileCallback \<Rightarrow> 't ReptileCallback" where
  "alpha_scheduler self = self\<lparr>alpha := max (alpha self * alpha_decay self) (1 / 10000)\<rparr>"

text \<open>
  \<^verbatim>\<open>_sample_task\<close>: \<open>rnd b\<close> is the raw draw of the random number generator in iteration
  \<open>b\<close> of the loop. The loop appends to \<^verbatim>\<open>self.selected_tasks\<close>, so a raise inside it leaves
  the tasks drawn so far in the attribute and \<^verbatim>\<open>self.w\<close> as it was.
\<close>

fun sample_loop ::
  "(nat \<Rightarrow> nat) \<Rightarrow> task list \<Rightarrow> nat list \<Rightarrow> task list \<Rightarrow> (error \<times> task list) + task list" where
  "sample_loop rnd ts [] acc = Inr acc"
| "sample_loop rnd ts (b # bs) acc =
     (case random_sample1 ts (rnd b) of
        Inl e \<Rightarrow> Inl (e, acc)
      | Inr task_params \<Rightarrow> sample_loop rnd ts bs (acc @ [task_params]))"

definition sample_task :: "(nat \<Rightarrow> nat) \<Rightarrow> 't ReptileCallback \<Rightarrow> 't ReptileCallback outcome" where
  "sample_task rnd self =
     (let w0 = replicate (nat (num_tasks self)) (1::real) in
      case sample_loop rnd (task_set self) [0..<nat (num_tasks self)] [] of
        Inl (e, acc) \<Rightarrow> Raise e (self\<lparr>selected_tasks := Some acc\<rparr>)
      | Inr acc \<Rightarrow> Return (self\<lparr>selected_tasks := Some acc, w := Some (softmax w0)\<rparr>))"

text \<open>
  \<^verbatim>\<open>_load_task\<close>: every raise happens before the generator is written, so an error
  leaves the module as it was.
\<close>

definition task_capacity :: "int \<Rightarrow> int" where
  "task_capacity s = (if s \<ge> 20 then \<lceil>30 + real_of_int s / 5\<rceil> else 20)"

definition load_task :: "'t ReptileCallback \<Rightarrow> 't pl_module \<Rightarrow> int \<Rightarrow> error + 't pl_module" where
  "load_task self pl task_idx =
     (case selected_tasks self of
        None \<Rightarrow> Inl AttributeError
      | Some sel \<Rightarrow>
         (case py_index sel task_idx of
            Inl e \<Rightarrow> Inl e
          | Inr task_params \<Rightarrow>
             (case w self of
                None \<Rightarrow> Inl AttributeError
              | Some ws \<Rightarrow>
                 (case py_index ws task_idx of
                    Inl e \<Rightarrow> Inl e
                  | Inr task_w \<Rightarrow>
                     (case py_index task_params 0 of
                        Inl e \<Rightarrow> Inl e
                      | Inr s \<Rightarrow>
                         (let g = (env_generator pl)\<lparr>num_loc := s\<rparr>;
                              g' = (if capacity g \<noteq> None
                                    then g\<lparr>capacity := Some (task_capacity s)\<rparr> else g)
                          in Inr (pl\<lparr>env_generator := g'\<rparr>)))))))"

text \<open>
  \<^verbatim>\<open>on_fit_start\<close>: the assignment \<^verbatim>\<open>self.selected_tasks[0] = ...\<close> raises \<open>IndexError\<close> on
  an empty list.
\<close>

definition on_fit_start ::
  "(nat \<Rightarrow> nat) \<Rightarrow> 't ReptileCallback \<Rightarrow> 't pl_module \<Rightarrow> 't ReptileCallback outcome" where
  "on_fit_start rnd self pl =
     (case sample_task rnd self of
        Raise e self1 \<Rightarrow> Raise e self1
      | Return self1 \<Rightarrow>
         (case selected_tasks self1 of
            None \<Rightarrow> Raise AttributeError self1
          | Some sel \<Rightarrow>
             if sel = [] then Raise IndexError self1
             else Return (self1\<lparr>selected_tasks :=
                     Some (sel[0 := [num_loc (env_generator pl)]])\<rparr>)))"

text \<open>
  \<^verbatim>\<open>on_train_epoch_start\<close>. \<^verbatim>\<open>copy.deepcopy\<close> of a value is the value. The \<^verbatim>\<open>print\<close> of
  the first branch reads \<^verbatim>\<open>self.selected_tasks\<close> when \<^verbatim>\<open>print_log\<close> is set. The optimizer
  is rebuilt with the old learning rate times \<^verbatim>\<open>lr_decay\<close>.
\<close>

definition on_train_epoch_start ::
  "'t ReptileCallback \<Rightarrow> trainer \<Rightarrow> 't pl_module
     \<Rightarrow> ('t ReptileCallback \<times> trainer \<times> 't pl_module) outcome" where
  "on_train_epoch_start self tr pl =
     (let self1 = alpha_scheduler self in
      case py_mod (current_epoch tr) (num_tasks self1) of
        Inl e \<Rightarrow> Raise e (self1, tr, pl)
      | Inr r \<Rightarrow>
         (case (if r = 0 then
                  (let self2 = self1\<lparr>meta_model_state_dict := Some (state_dict pl),
                                     task_models := Some []\<rparr>
                   in if print_log self2 \<and> selected_tasks self2 = None
                      then Raise AttributeError (self2, tr, pl)
                      else Return (self2, tr, pl))
                else
                  (case meta_model_state_dict self1 of
                     None \<Rightarrow> Raise AttributeError (self1, tr, pl)
                   | Some meta \<Rightarrow> Return (self1, tr, pl\<lparr>state_dict := meta\<rparr>))) of
            Raise e s \<Rightarrow> Raise e s
          | Return (self3, tr3, pl3) \<Rightarrow>
             (let lr_decay =
                    (if current_epoch tr3 + 1
                          = py_int (sch_bar self3 * real_of_int (max_epochs tr3))
                     then 1 / 10 else 1);
                  old_lr = optimizer_lr tr3
              in Return (self3, tr3\<lparr>optimizer_lr := old_lr * lr_decay\<rparr>, pl3))))"

text \<open>
  The outer-loop optimisation of \<^verbatim>\<open>on_train_epoch_end\<close>: the dict comprehension over the
  keys of \<^verbatim>\<open>self.meta_model_state_dict\<close>. \<open>task_deltas\<close> is the inner list comprehension
  \<^verbatim>\<open>[fast_weight[params_key] - meta[params_key] for fast_weight in self.task_models]\<close>, where a
  missing key raises \<open>KeyError\<close>; \<open>stack_mean\<close> is \<^verbatim>\<open>torch.mean(torch.stack(..., dim=0), dim=0)\<close>,
  and \<^verbatim>\<open>torch.stack\<close> refuses an empty list.
\<close>

fun task_deltas :: "string \<Rightarrow> 't::real_vector \<Rightarrow> 't state_dict list \<Rightarrow> error + 't list" where
  "task_deltas params_key m [] = Inr []"
| "task_deltas params_key m (fast_weight # rest) =
     (case map_of fast_weight params_key of
        None \<Rightarrow> Inl (KeyError params_key)
      | Some v \<Rightarrow>
         (case task_deltas params_key m rest of
            Inl e \<Rightarrow> Inl e
          | Inr ds \<Rightarrow> Inr ((v - m) # ds)))"

definition stack_mean :: "'t::real_vector list \<Rightarrow> error + 't" where
  "stack_mean ds =
     (if ds = [] then Inl RuntimeError
      else Inr ((1 / real (length ds)) *\<^sub>R sum_list ds))"

fun outer_loop_update ::
  "real \<Rightarrow> 't::real_vector state_dict list \<Rightarrow> 't state_dict \<Rightarrow> error + 't state_dict" where
  "outer_loop_update a tms [] = Inr []"
| "outer_loop_update a tms ((params_key, m) # rest) =
     (case task_deltas params_key m tms of
        Inl e \<Rightarrow> Inl e
      | Inr ds \<Rightarrow>
         (case stack_mean ds of
            Inl e \<Rightarrow> Inl e
          | Inr mean \<Rightarrow>
             (case outer_loop_update a tms rest of
                Inl e \<Rightarrow> Inl e
              | Inr sd \<Rightarrow> Inr ((params_key, m + a *\<^sub>R mean) # sd))))"

text \<open>
  \<^verbatim>\<open>on_train_epoch_end\<close>: append the task model, aggregate and load the result when
  \<^verbatim>\<open>(current_epoch + 1) % num_tasks == 0\<close>, resample under the same condition, and load the
  next task. \<^verbatim>\<open>load_state_dict\<close> is the assignment of the module's parameters.
\<close>

definition on_train_epoch_end ::
  "(nat \<Rightarrow> nat) \<Rightarrow> 't::real_vector ReptileCallback \<Rightarrow> trainer \<Rightarrow> 't pl_module
     \<Rightarrow> ('t ReptileCallback \<times> 't pl_module) outcome" where
  "on_train_epoch_end rnd self tr pl =
     (case task_models self of
        None \<Rightarrow> Raise AttributeError (self, pl)
      | Some tms \<Rightarrow>
         (let self1 = self\<lparr>task_models := Some (tms @ [state_dict pl])\<rparr> in
          case py_mod (current_epoch tr + 1) (num_tasks self1) of
            Inl e \<Rightarrow> Raise e (self1, pl)
          | Inr r \<Rightarrow>
             (case (if r = 0 then
                      (case meta_model_state_dict self1 of
                         None \<Rightarrow> Raise AttributeError (self1, pl)
                       | Some meta \<Rightarrow>
                          (case outer_loop_update (alpha self1) (tms @ [state_dict pl]) meta of
                             Inl e \<Rightarrow> Raise e (self1, pl)
                           | Inr sd \<Rightarrow> Return (self1, pl\<lparr>state_dict := sd\<rparr>)))
                    else Return (self1, pl)) of
                Raise e s \<Rightarrow> Raise e s
              | Return (self2, pl2) \<Rightarrow>
                 (case (if r = 0 then
                          (case sample_task rnd self2 of
                             Raise e self3 \<Rightarrow> Raise e (self3, pl2)
                           | Return self3 \<Rightarrow> Return (self3, pl2))
                        else Return (self2, pl2)) of
                    Raise e s \<Rightarrow> Raise e s
                  | Return (self3, pl3) \<Rightarrow>
                     (case load_task self3 pl3 r of
                        Inl e \<Rightarrow> Raise e (self3, pl3)
                      | Inr pl4 \<Rightarrow> Return (self3, pl4))))))"

text \<open>
  The update of one parameter as the specification writes it: the meta parameter plus
  \<open>alpha\<close> times the mean, over the task snapshots, of snapshot minus meta parameter.
\<close>

definition reptile_step :: "real \<Rightarrow> 't::real_vector state_dict list \<Rightarrow> string \<Rightarrow> 't \<Rightarrow> 't" where
  "reptile_step a tms k m =
     m + a *\<^sub>R ((1 / real (length tms)) *\<^sub>R (\<Sum>fw\<leftarrow>tms. the (map_of fw k) - m))"

text \<open>The state an outcome leaves behind, whether the hook returned or raised.\<close>

fun state_of :: "'s outcome \<Rightarrow> 's" where
  "state_of (Raise e s) = s"
| "state_of (Return s) = s"

text \<open>
  Modelled from the spec: the host training loop, which belongs to the training framework
  and is not among the sources. It calls the per-epoch protocol once at the start of
  every training epoch, with the epoch index starting at 0 and growing by one per epoch,
  trains, and calls the per-epoch-end protocol. Training is an arbitrary function \<open>fit\<close> on
  the parameters of the module; \<open>rnd k\<close> and \<open>fit k\<close> are the random draws and the training
  of epoch \<open>k\<close>. The loop stops at the first exception.
\<close>

fun train_epoch ::
  "(nat \<Rightarrow> nat) \<Rightarrow> ('t state_dict \<Rightarrow> 't state_dict)
     \<Rightarrow> 't::real_vector ReptileCallback \<times> trainer \<times> 't pl_module
     \<Rightarrow> ('t ReptileCallback \<times> trainer \<times> 't pl_module) outcome" where
  "train_epoch rnd fit (self, tr, pl) =
     (case on_train_epoch_start self tr pl of
        Raise e s \<Rightarrow> Raise e s
      | Return (self1, tr1, pl1) \<Rightarrow>
         (let pl2 = pl1\<lparr>state_dict := fit (state_dict pl1)\<rparr> in
          case on_train_epoch_end rnd self1 tr1 pl2 of
            Raise e (self2, pl3) \<Rightarrow> Raise e (self2, tr1, pl3)
          | Return (self2, pl3) \<Rightarrow>
              Return (self2, tr1\<lparr>current_epoch := current_epoch tr1 + 1\<rparr>, pl3)))"

fun fit_loop ::
  "nat \<Rightarrow> (nat \<Rightarrow> nat \<Rightarrow> nat) \<Rightarrow> (nat \<Rightarrow> 't state_dict \<Rightarrow> 't state_dict)
     \<Rightarrow> 't::real_vector ReptileCallback \<times> trainer \<times> 't pl_module
     \<Rightarrow> ('t ReptileCallback \<times> trainer \<times> 't pl_module) outcome" where
  "fit_loop 0 rnd fit s = Return s"
| "fit_loop (Suc k) rnd fit s =
     (case fit_loop k rnd fit s of
        Raise e s' \<Rightarrow> Raise e s'
      | Return s' \<Rightarrow> train_epoch (rnd k) (fit k) s')"

section \<open>The job-shop environment\<close>

text \<open>
  One row of the batched tensor dict of \<^verbatim>\<open>JSSPEnv\<close>: \<^verbatim>\<open>td["done"]\<close>, \<^verbatim>\<open>td["job_in_process"]\<close> and
  \<^verbatim>\<open>td["busy_until"]\<close> of one instance. A batch is a list of rows, and the tensor operations
  of the environment act on each row alone.
\<close>

record jssp_td =
  td_done :: bool
  td_job_in_process :: "bool list"
  td_busy_until :: "real list"

text \<open>
  \<^verbatim>\<open>JSSPEnv.get_action_mask\<close>. The method \<^verbatim>\<open>_get_job_machine_availability\<close> is inherited from
  \<^verbatim>\<open>FJSPEnv\<close>, which is not among the sources: its result for a row, a jobs by machines
  matrix in which \<open>True\<close> marks an infeasible pair, is a parameter. \<^verbatim>\<open>reduce(..., "all")\<close>
  is the conjunction over the machines, \<^verbatim>\<open>any(1, keepdims=True)\<close> the disjunction over the
  jobs, and \<^verbatim>\<open>torch.cat\<close> puts the no-op entry first. In the returned mask \<open>True\<close> means
  feasible.
\<close>

definition get_action_mask ::
  "bool \<Rightarrow> (jssp_td \<Rightarrow> bool list list) \<Rightarrow> jssp_td list \<Rightarrow> bool list list" where
  "get_action_mask mask_no_ops get_job_machine_availability td =
     map (\<lambda>row.
            let action_mask = get_job_machine_availability row;
                no_op_mask =
                  (if mask_no_ops then \<not> td_done row
                   else \<not> list_ex (\<lambda>p. p) (td_job_in_process row) \<and> \<not> td_done row);
                action_mask = map (list_all (\<lambda>p. p)) action_mask
            in (\<not> no_op_mask) # map Not action_mask) td"

text \<open>
  Modelled from the spec: the reward query of the environment, which \<^verbatim>\<open>JSSPEnv\<close> inherits
  from \<^verbatim>\<open>FJSPEnv\<close> (not among the sources). The specification gives it as 0 while the
  instance is not done and, on completion, the negative makespan, the maximum over the
  machines of busy-until.
\<close>

definition makespan :: "jssp_td \<Rightarrow> real" where
  "makespan row = (case td_busy_until row of [] \<Rightarrow> 0 | b # bs \<Rightarrow> fold max bs b)"

definition get_reward :: "jssp_td list \<Rightarrow> real list" where
  "get_reward td = map (\<lambda>row. if td_done row then - makespan row else 0) td"

section \<open>Concrete instances\<close>

definition example_callback :: "real ReptileCallback" where
  "example_callback =
     \<lparr>num_tasks = 4, alpha = 1 / 100000, alpha_decay = 1 / 2, sch_bar = 9 / 10,
      print_log = True, task_set = [[10]],
      selected_tasks = Some [[10], [10], [10], [10]],
      w = Some [1 / 4, 1 / 4, 1 / 4, 1 / 4],
      meta_model_state_dict = None, task_models = None\<rparr>"

definition fresh_callback :: "real ReptileCallback" where
  "fresh_callback =
     \<lparr>num_tasks = 4, alpha = 1 / 100000, alpha_decay = 1 / 2, sch_bar = 9 / 10,
      print_log = True, task_set = [[10], [11], [12]],
      selected_tasks = None, w = None,
      meta_model_state_dict = None, task_models = None\<rparr>"

definition example_module :: "real pl_module" where
  "example_module =
     \<lparr>state_dict = [(''weight'', 1)], env_generator = \<lparr>num_loc = 50, capacity = Some 40\<rparr>\<rparr>"

definition example_trainer :: trainer where
  "example_trainer = \<lparr>current_epoch = 1, max_epochs = 10, optimizer_lr = 1 / 1000\<rparr>"

definition adapted_callback :: "real ReptileCallback" where
  "adapted_callback =
     \<lparr>num_tasks = 2, alpha = 1 / 2, alpha_decay = 1 / 2, sch_bar = 9 / 10,
      print_log = True, task_set = [[10]],
      selected_tasks = Some [[10], [10]], w = Some [1 / 2, 1 / 2],
      meta_model_state_dict = Some [(''weight'', 1)],
      task_models = Some [[(''weight'', 3)]]\<rparr>"

definition adapted_module :: "real pl_module" where
  "adapted_module =
     \<lparr>state_dict = [(''weight'', 5)], env_generator = \<lparr>num_loc = 10, capacity = Some 20\<rparr>\<rparr>"

definition unadapted_callback :: "real ReptileCallback" where
  "unadapted_callback =
     adapted_callback\<lparr>meta_model_state_dict := Some [(''weight'', 5), (''bias'', 2)],
                       task_models := Some [[(''weight'', 5), (''bias'', 2)]]\<rparr>"

definition unadapted_module :: "real pl_module" where
  "unadapted_module = adapted_module\<lparr>state_dict := [(''weight'', 5), (''bias'', 2)]\<rparr>"

definition partial_module :: "real pl_module" where
  "partial_module = adapted_module\<lparr>state_dict := [(''bias'', 2)]\<rparr>"

definition schedule_callback :: "real ReptileCallback" where
  "schedule_callback =
     example_callback\<lparr>alpha := 1 / 2,
       meta_model_state_dict := Some [(''weight'', 1)],
       task_models := Some [[(''weight'', 3)], [(''weight'', 1)], [(''weight'', 1)]]\<rparr>"

definition schedule_trainer :: trainer where
  "schedule_trainer = \<lparr>current_epoch = 3, max_epochs = 8, optimizer_lr = 1 / 1000\<rparr>"

definition finished_td :: jssp_td where
  "finished_td = \<lparr>td_done = True, td_job_in_process = [False, False],
                   td_busy_until = [3, 7, 5]\<rparr>"

definition waiting_td :: jssp_td where
  "waiting_td = \<lparr>td_done = False, td_job_in_process = [True, False],
                  td_busy_until = [3, 0, 0]\<rparr>"

definition start_trainer :: trainer where
  "start_trainer = \<lparr>current_epoch = 0, max_epochs = 8, optimizer_lr = 1 / 1000\<rparr>"

section \<open>Alpha decay\<close>

lemma alpha_scheduler_floor: "1 / 10000 \<le> alpha (alpha_scheduler self)"
  by (simp add: alpha_scheduler_def)

text \<open>
  Claim C6. One call of the alpha scheduler sets \<open>alpha\<close> to
  \<open>max (alpha * alpha_decay) 0.0001\<close>; hence after any positive number of calls, from
  any initial \<open>alpha\<close> and any decay factor, \<open>alpha\<close> is at least \<open>0.0001\<close>.
\<close>

theorem alpha_scheduler_never_below_floor:
  "alpha (alpha_scheduler self) = max (alpha self * alpha_decay self) (1 / 10000)
   \<and> (0 < n \<longrightarrow> 1 / 10000 \<le> alpha ((alpha_scheduler ^^ n) self))"
proof
  show "alpha (alpha_scheduler self) = max (alpha self * alpha_decay self) (1 / 10000)"
    by (simp add: alpha_scheduler_def)
  show "0 < n \<longrightarrow> 1 / 10000 \<le> alpha ((alpha_scheduler ^^ n) self)"
  proof
    assume "0 < n"
    then obtain m where "n = Suc m" by (cases n) auto
    then show "1 / 10000 \<le> alpha ((alpha_scheduler ^^ n) self)"
      using alpha_scheduler_floor [of "(alpha_scheduler ^^ m) self"] by simp
  qed
qed

theorem alpha_scheduler_never_below_floor_witness:
  "(0::nat) < 3
   \<and> alpha ((alpha_scheduler ^^ 3) example_callback) = 1 / 10000
   \<and> alpha (alpha_scheduler example_callback) = max (1 / 100000 * (1 / 2)) (1 / 10000)"
  using alpha_scheduler_never_below_floor [of example_callback 3]
  by (simp add: example_callback_def alpha_scheduler_def numeral_3_eq_3)

section \<open>Loading a task into the generator\<close>

lemma ceiling_capacity: "\<lceil>30 + real_of_int s / 5\<rceil> = 30 + (s + 4) div 5"
proof (rule ceiling_unique)
  have a: "5 * ((s + 4) div 5) \<ge> s" and b: "5 * ((s + 4) div 5) \<le> s + 4"
    by presburger+
  from a have "real_of_int s \<le> real_of_int (5 * ((s + 4) div 5))"
    by (rule of_int_le_iff [THEN iffD2])
  then show "30 + real_of_int s / 5 \<le> real_of_int (30 + (s + 4) div 5)" by simp
  from b have "real_of_int (5 * ((s + 4) div 5)) \<le> real_of_int (s + 4)"
    by (rule of_int_le_iff [THEN iffD2])
  then show "real_of_int (30 + (s + 4) div 5) - 1 < 30 + real_of_int s / 5" by simp
qed

text \<open>
  Claim C7. When \<^verbatim>\<open>_load_task\<close> loads the task \<open>(s,)\<close> at index \<open>i\<close> into a generator that
  has the attribute \<^verbatim>\<open>capacity\<close>, the call returns, the generator's size is \<open>s\<close> and its
  capacity is \<open>ceil (30 + s / 5)\<close> if \<open>s \<ge> 20\<close> and 20 otherwise; a task of size 10 gives
  capacity 20.
\<close>

theorem load_task_sets_capacity:
  assumes "selected_tasks self = Some sel" and "py_index sel i = Inr task_params"
    and "w self = Some ws" and "py_index ws i = Inr task_w"
    and "py_index task_params 0 = Inr s"
    and "capacity (env_generator pl) = Some c"
  shows "\<exists>pl'. load_task self pl i = Inr pl'
           \<and> num_loc (env_generator pl') = s
           \<and> capacity (env_generator pl') =
               Some (if s \<ge> 20 then \<lceil>30 + real_of_int s / 5\<rceil> else 20)
           \<and> (s = 10 \<longrightarrow> capacity (env_generator pl') = Some 20)"
  using assms by (simp add: load_task_def task_capacity_def)

theorem load_task_sets_capacity_witness:
  "load_task example_callback example_module 1 =
     Inr (example_module\<lparr>env_generator := \<lparr>num_loc = 10, capacity = Some 20\<rparr>\<rparr>)
   \<and> load_task (example_callback\<lparr>selected_tasks := Some [[10], [23]]\<rparr>) example_module 1 =
     Inr (example_module\<lparr>env_generator := \<lparr>num_loc = 23, capacity = Some 35\<rparr>\<rparr>)"
proof -
  have a: "selected_tasks example_callback = Some [[10], [10], [10], [10]]"
    and b: "py_index [[10], [10], [10], [10::int]] 1 = Inr [10]"
    and c: "w example_callback = Some [1 / 4, 1 / 4, 1 / 4, 1 / 4]"
    and d: "py_index [1 / 4, 1 / 4, 1 / 4, 1 / 4 :: real] 1 = Inr (1 / 4)"
    and e: "py_index [10::int] 0 = Inr 10"
    and f: "capacity (env_generator example_module) = Some 40"
    by (simp_all add: example_callback_def example_module_def py_index_def)
  from load_task_sets_capacity [OF a b c d e f]
  have "load_task example_callback example_module 1 =
     Inr (example_module\<lparr>env_generator := \<lparr>num_loc = 10, capacity = Some 20\<rparr>\<rparr>)"
    by (simp add: load_task_def example_callback_def example_module_def py_index_def
        task_capacity_def)
  moreover have "load_task (example_callback\<lparr>selected_tasks := Some [[10], [23]]\<rparr>)
      example_module 1 =
     Inr (example_module\<lparr>env_generator := \<lparr>num_loc = 23, capacity = Some 35\<rparr>\<rparr>)"
    by (simp add: load_task_def example_callback_def example_module_def py_index_def
        task_capacity_def ceiling_capacity)
  ultimately show ?thesis by simp
qed

section \<open>Sampling tasks\<close>

lemma sample_loop_nonempty:
  "ts \<noteq> [] \<Longrightarrow>
   sample_loop rnd ts bs acc = Inr (acc @ map (\<lambda>b. ts ! (rnd b mod length ts)) bs)"
  by (induction bs arbitrary: acc) (simp_all add: random_sample1_def)

lemma sample_loop_empty:
  "sample_loop rnd [] bs acc = (if bs = [] then Inr acc else Inl (ValueError, acc))"
  by (cases bs) (simp_all add: random_sample1_def)

lemma softmax_uniform:
  "softmax (replicate n 1) = replicate n (1 / real n)"
proof -
  have "sum_list (map exp (replicate n (1::real))) = real n * exp 1"
    by (simp add: sum_list_replicate)
  then show ?thesis
    by (cases "n = 0") (simp_all add: softmax_def map_replicate)
qed

lemma sample_task_nonempty:
  assumes "task_set self \<noteq> []"
  shows "sample_task rnd self =
     Return (self\<lparr>selected_tasks :=
                  Some (map (\<lambda>b. task_set self ! (rnd b mod length (task_set self)))
                         [0..<nat (num_tasks self)]),
                w := Some (replicate (nat (num_tasks self)) (1 / real (nat (num_tasks self))))\<rparr>)"
  using assms by (simp add: sample_task_def sample_loop_nonempty softmax_uniform)

lemma sample_task_empty:
  assumes "task_set self = []"
  shows "sample_task rnd self =
     (if num_tasks self \<le> 0 then Return (self\<lparr>selected_tasks := Some [], w := Some []\<rparr>)
      else Raise ValueError (self\<lparr>selected_tasks := Some []\<rparr>))"
  using assms by (simp add: sample_task_def sample_loop_empty softmax_def)

lemma upt_nat_4: "[0..<nat 4] = [0, 1, 2, 3]"
  by (simp add: upt_rec)

lemma replicate_4: "replicate 4 x = [x, x, x, x]"
  by (simp add: numeral_eq_Suc)

lemma init_size:
  assumes "init n a a_decay min_size max_size bar data_type plog = Inr self0"
  shows "task_set self0 = map (\<lambda>n. [n]) [min_size..max_size]" and "num_tasks self0 = n"
    and "selected_tasks self0 = None" and "w self0 = None"
  using assms by (auto simp add: init_def split: if_splits)

lemma init_fresh:
  "init 4 (1 / 100000) (1 / 2) 10 12 (9 / 10) ''size'' True = Inr fresh_callback"
  by (simp add: init_def fresh_callback_def upto_rec1)

lemma sample_task_enumerated:
  assumes ts: "task_set self = map (\<lambda>n. [n]) [min_size..max_size]"
    and n0: "0 \<le> num_tasks self"
  shows "(min_size \<le> max_size \<longrightarrow> (\<exists>s. sample_task rnd self = Return s))
    \<and> (\<forall>self'. sample_task rnd self = Return self' \<longrightarrow>
          (\<exists>sel ws. selected_tasks self' = Some sel \<and> w self' = Some ws
             \<and> int (length sel) = num_tasks self
             \<and> (\<forall>t\<in>set sel. t \<in> set (task_set self)
                    \<and> (\<exists>n. t = [n] \<and> min_size \<le> n \<and> n \<le> max_size))
             \<and> length ws = length sel
             \<and> (\<forall>x\<in>set ws. x = 1 / real_of_int (num_tasks self))))"
proof (cases "task_set self = []")
  case True
  then have "\<not> min_size \<le> max_size" using ts by simp
  then show ?thesis
    using True n0 by (auto simp add: sample_task_empty split: if_splits)
next
  case False
  let ?ts = "task_set self"
  let ?sel = "map (\<lambda>b. ?ts ! (rnd b mod length ?ts)) [0..<nat (num_tasks self)]"
  have mem: "t \<in> set ?ts" if "t \<in> set ?sel" for t
    using that False by auto
  have range: "\<exists>n. t = [n] \<and> min_size \<le> n \<and> n \<le> max_size" if "t \<in> set ?ts" for t
    using that ts by auto
  have wt: "real (nat (num_tasks self)) = real_of_int (num_tasks self)"
    using n0 by simp
  show ?thesis
    using n0 mem range by (auto simp add: sample_task_nonempty [OF False] wt)
qed

lemma sample_task_fresh:
  "sample_task rnd fresh_callback =
     Return (fresh_callback\<lparr>selected_tasks :=
               Some (map (\<lambda>b. [[10], [11], [12]] ! (rnd b mod 3)) [0, 1, 2, 3]),
             w := Some [1 / 4, 1 / 4, 1 / 4, 1 / 4]\<rparr>)"
proof -
  have a: "task_set fresh_callback \<noteq> []"
    and c: "num_tasks fresh_callback = 4" "task_set fresh_callback = [[10], [11], [12]]"
    by (simp_all add: fresh_callback_def)
  have l: "length [[10], [11], [12::int]] = 3" by simp
  show ?thesis
    unfolding sample_task_nonempty [OF a] c upt_nat_4 l
    by (simp add: replicate_4)
qed

text \<open>
  Claim C9. For a callback built by \<^verbatim>\<open>__init__\<close> with the sizes \<open>min_size\<close> to \<open>max_size\<close> and
  a \<open>num_tasks\<close> that is not negative (its other attributes may have changed since), the
  task set is the enumeration of the one-tuples \<open>(n,)\<close> for \<open>n\<close> from \<open>min_size\<close> to
  \<open>max_size\<close>; a call of \<^verbatim>\<open>_sample_task\<close> returns whenever \<open>min_size \<le> max_size\<close>; and after
  every call that returns, \<^verbatim>\<open>selected_tasks\<close> is a list of exactly \<open>num_tasks\<close> elements, each
  a one-tuple \<open>(n,)\<close> of the task set with \<open>min_size \<le> n \<le> max_size\<close>, and \<^verbatim>\<open>w\<close> gives every
  drawn task the weight \<open>1 / num_tasks\<close>.
\<close>

theorem sample_task_selected:
  assumes i: "init n a a_decay min_size max_size bar data_type plog = Inr self0"
    and ts: "task_set self = task_set self0" and nt: "num_tasks self = num_tasks self0"
    and n0: "0 \<le> n"
  shows "task_set self0 = map (\<lambda>n. [n]) [min_size..max_size] \<and> num_tasks self0 = n
    \<and> (min_size \<le> max_size \<longrightarrow> (\<exists>s. sample_task rnd self = Return s))
    \<and> (\<forall>self'. sample_task rnd self = Return self' \<longrightarrow>
          (\<exists>sel ws. selected_tasks self' = Some sel \<and> w self' = Some ws
             \<and> int (length sel) = n
             \<and> (\<forall>t\<in>set sel. t \<in> set (task_set self0)
                    \<and> (\<exists>m. t = [m] \<and> min_size \<le> m \<and> m \<le> max_size))
             \<and> length ws = length sel
             \<and> (\<forall>x\<in>set ws. x = 1 / real_of_int n)))"
proof -
  note z = init_size(1,2) [OF i]
  from ts z have ts': "task_set self = map (\<lambda>n. [n]) [min_size..max_size]" by simp
  from nt z n0 have n0': "0 \<le> num_tasks self" and nn: "num_tasks self = n" by simp_all
  from sample_task_enumerated [OF ts' n0', of rnd] z show ?thesis
    unfolding nn ts by simp
qed

theorem sample_task_selected_witness:
  "init 4 (1 / 100000) (1 / 2) 10 12 (9 / 10) ''size'' True = Inr fresh_callback
   \<and> (0::int) \<le> 4 \<and> (10::int) \<le> 12
   \<and> task_set fresh_callback = map (\<lambda>n. [n]) [10..12]
   \<and> num_tasks fresh_callback = 4
   \<and> sample_task (\<lambda>b. b) fresh_callback =
       Return (fresh_callback\<lparr>selected_tasks := Some [[10], [11], [12], [10]],
                              w := Some [1 / 4, 1 / 4, 1 / 4, 1 / 4]\<rparr>)"
proof -
  have n0: "(0::int) \<le> 4" by simp
  note t = sample_task_selected [OF init_fresh refl refl n0, of "\<lambda>b. b"]
  from t have a: "task_set fresh_callback = map (\<lambda>n. [n]) [10..12]"
    and b: "num_tasks fresh_callback = 4" by simp_all
  have c: "sample_task (\<lambda>b. b) fresh_callback =
       Return (fresh_callback\<lparr>selected_tasks := Some [[10], [11], [12], [10]],
                              w := Some [1 / 4, 1 / 4, 1 / 4, 1 / 4]\<rparr>)"
    unfolding sample_task_fresh by simp
  from init_fresh a b c show ?thesis by simp
qed

section \<open>The first task of a fit\<close>

lemma on_fit_start_nonempty:
  assumes "task_set self \<noteq> []" and "0 < num_tasks self"
  shows "on_fit_start rnd self pl =
     Return (self\<lparr>selected_tasks :=
                  Some ((map (\<lambda>b. task_set self ! (rnd b mod length (task_set self)))
                         [0..<nat (num_tasks self)])[0 := [num_loc (env_generator pl)]]),
                w := Some (replicate (nat (num_tasks self)) (1 / real (nat (num_tasks self))))\<rparr>)"
  using assms by (simp add: on_fit_start_def sample_task_nonempty)

lemma on_fit_start_entry:
  assumes "on_fit_start rnd self pl = Return self'"
  shows "\<exists>sel. selected_tasks self' = Some sel
            \<and> py_index sel 0 = Inr [num_loc (env_generator pl)]"
proof (cases "sample_task rnd self")
  case (Raise e s)
  with assms show ?thesis by (simp add: on_fit_start_def)
next
  case (Return s)
  show ?thesis
  proof (cases "selected_tasks s")
    case None
    with Return assms show ?thesis by (simp add: on_fit_start_def)
  next
    case (Some sel)
    with Return assms have "sel \<noteq> []"
      and "self' = s\<lparr>selected_tasks := Some (sel[0 := [num_loc (env_generator pl)]])\<rparr>"
      by (auto simp add: on_fit_start_def split: if_splits)
    then show ?thesis by (cases sel) (simp_all add: py_index_def)
  qed
qed

lemma on_train_epoch_start_generator:
  "env_generator (snd (snd (state_of (on_train_epoch_start self tr pl)))) = env_generator pl"
proof (cases "num_tasks self = 0")
  case True
  then show ?thesis
    by (simp add: on_train_epoch_start_def py_mod_def alpha_scheduler_def)
next
  case n0: False
  show ?thesis
  proof (cases "current_epoch tr mod num_tasks self = 0")
    case True
    with n0 show ?thesis
      by (simp add: on_train_epoch_start_def py_mod_def alpha_scheduler_def Let_def)
  next
    case False
    with n0 show ?thesis
      by (cases "meta_model_state_dict self")
         (simp_all add: on_train_epoch_start_def py_mod_def alpha_scheduler_def Let_def)
  qed
qed

lemma on_fit_start_no_tasks:
  assumes "num_tasks self \<le> 0"
  shows "on_fit_start rnd self pl =
           Raise IndexError (self\<lparr>selected_tasks := Some [], w := Some []\<rparr>)"
  using assms by (simp add: on_fit_start_def sample_task_def softmax_def)

lemma on_fit_start_after_sampling:
  assumes "on_fit_start rnd self pl = Return self'"
  shows "\<exists>self1 sel. sample_task rnd self = Return self1 \<and> selected_tasks self1 = Some sel
           \<and> sel \<noteq> []
           \<and> self' = self1\<lparr>selected_tasks := Some (sel[0 := [num_loc (env_generator pl)]])\<rparr>"
proof (cases "sample_task rnd self")
  case (Raise e s)
  with assms show ?thesis by (simp add: on_fit_start_def)
next
  case (Return s)
  show ?thesis
  proof (cases "selected_tasks s")
    case None
    with Return assms show ?thesis by (simp add: on_fit_start_def)
  next
    case (Some sel)
    with Return assms have "sel \<noteq> []"
      and "self' = s\<lparr>selected_tasks := Some (sel[0 := [num_loc (env_generator pl)]])\<rparr>"
      by (auto simp add: on_fit_start_def split: if_splits)
    with Return Some show ?thesis by simp
  qed
qed

lemma on_fit_start_fresh:
  "on_fit_start rnd fresh_callback example_module =
     Return (fresh_callback\<lparr>selected_tasks :=
               Some [[50], [[10], [11], [12]] ! (rnd 1 mod 3),
                     [[10], [11], [12]] ! (rnd 2 mod 3), [[10], [11], [12]] ! (rnd 3 mod 3)],
             w := Some [1 / 4, 1 / 4, 1 / 4, 1 / 4]\<rparr>)"
  by (simp add: on_fit_start_def sample_task_fresh example_module_def)

text \<open>
  Claim C10. \<^verbatim>\<open>on_fit_start\<close> first samples: when the task set is not empty and \<open>num_tasks\<close>
  is positive, \<^verbatim>\<open>_sample_task\<close> returns a list of \<open>num_tasks\<close> tasks of the task set and the
  uniform weights, and the hook returns that state with \<^verbatim>\<open>selected_tasks[0]\<close> overwritten by
  the one-tuple of the generator's current \<^verbatim>\<open>num_loc\<close>. Every return of the hook is the
  sampler's state with entry 0 overwritten in this way; an exception of the sampler is the
  hook's exception; without any task to overwrite the hook raises \<open>IndexError\<close>.
  \<^verbatim>\<open>on_train_epoch_start\<close> never writes the generator, so the first epoch trains on the
  generator's preconfigured size; and that first task need not belong to the task set.
\<close>

theorem on_fit_start_first_task:
  "(task_set self \<noteq> [] \<and> 0 < num_tasks self \<longrightarrow>
      (\<exists>self1 sel. sample_task rnd self = Return self1
         \<and> selected_tasks self1 = Some sel
         \<and> int (length sel) = num_tasks self
         \<and> set sel \<subseteq> set (task_set self)
         \<and> w self1 = Some (replicate (length sel) (1 / real_of_int (num_tasks self)))
         \<and> on_fit_start rnd self pl =
             Return (self1\<lparr>selected_tasks :=
                              Some (sel[0 := [num_loc (env_generator pl)]])\<rparr>)))
   \<and> (\<forall>self'. on_fit_start rnd self pl = Return self' \<longrightarrow>
         (\<exists>self1 sel. sample_task rnd self = Return self1 \<and> selected_tasks self1 = Some sel
            \<and> self' = self1\<lparr>selected_tasks :=
                               Some (sel[0 := [num_loc (env_generator pl)]])\<rparr>
            \<and> py_index (sel[0 := [num_loc (env_generator pl)]]) 0
                 = Inr [num_loc (env_generator pl)]))
   \<and> (\<forall>e s. sample_task rnd self = Raise e s \<longrightarrow> on_fit_start rnd self pl = Raise e s)
   \<and> (num_tasks self \<le> 0 \<longrightarrow> (\<exists>s. on_fit_start rnd self pl = Raise IndexError s))
   \<and> env_generator (snd (snd (state_of (on_train_epoch_start self2 tr pl)))) = env_generator pl
   \<and> (\<exists>c g s sel. on_fit_start rnd (c :: real ReptileCallback) g = Return s
          \<and> selected_tasks s = Some sel \<and> py_index sel 0 \<notin> Inr ` set (task_set c))"
proof (intro conjI)
  show "task_set self \<noteq> [] \<and> 0 < num_tasks self \<longrightarrow>
      (\<exists>self1 sel. sample_task rnd self = Return self1
         \<and> selected_tasks self1 = Some sel
         \<and> int (length sel) = num_tasks self
         \<and> set sel \<subseteq> set (task_set self)
         \<and> w self1 = Some (replicate (length sel) (1 / real_of_int (num_tasks self)))
         \<and> on_fit_start rnd self pl =
             Return (self1\<lparr>selected_tasks :=
                              Some (sel[0 := [num_loc (env_generator pl)]])\<rparr>))"
  proof
    assume h: "task_set self \<noteq> [] \<and> 0 < num_tasks self"
    then have ne: "task_set self \<noteq> []" and pos: "0 < num_tasks self" by simp_all
    let ?sel = "map (\<lambda>b. task_set self ! (rnd b mod length (task_set self)))
                  [0..<nat (num_tasks self)]"
    let ?self1 = "self\<lparr>selected_tasks := Some ?sel,
        w := Some (replicate (nat (num_tasks self)) (1 / real (nat (num_tasks self))))\<rparr>"
    have s: "sample_task rnd self = Return ?self1" by (rule sample_task_nonempty [OF ne])
    have l: "int (length ?sel) = num_tasks self" using pos by simp
    have m: "set ?sel \<subseteq> set (task_set self)" using ne by auto
    have wt: "w ?self1 = Some (replicate (length ?sel) (1 / real_of_int (num_tasks self)))"
      using pos by simp
    have f: "on_fit_start rnd self pl =
        Return (?self1\<lparr>selected_tasks := Some (?sel[0 := [num_loc (env_generator pl)]])\<rparr>)"
      unfolding on_fit_start_nonempty [OF ne pos] by simp
    have sl: "selected_tasks ?self1 = Some ?sel" by simp
    from s sl l m wt f show "\<exists>self1 sel. sample_task rnd self = Return self1
         \<and> selected_tasks self1 = Some sel
         \<and> int (length sel) = num_tasks self
         \<and> set sel \<subseteq> set (task_set self)
         \<and> w self1 = Some (replicate (length sel) (1 / real_of_int (num_tasks self)))
         \<and> on_fit_start rnd self pl =
             Return (self1\<lparr>selected_tasks :=
                              Some (sel[0 := [num_loc (env_generator pl)]])\<rparr>)"
      by (intro exI [of _ ?self1] exI [of _ ?sel] conjI)
  qed
  show "\<forall>self'. on_fit_start rnd self pl = Return self' \<longrightarrow>
         (\<exists>self1 sel. sample_task rnd self = Return self1 \<and> selected_tasks self1 = Some sel
            \<and> self' = self1\<lparr>selected_tasks :=
                               Some (sel[0 := [num_loc (env_generator pl)]])\<rparr>
            \<and> py_index (sel[0 := [num_loc (env_generator pl)]]) 0
                 = Inr [num_loc (env_generator pl)])"
  proof (intro allI impI)
    fix self' assume "on_fit_start rnd self pl = Return self'"
    from on_fit_start_after_sampling [OF this] obtain self1 sel where
      a: "sample_task rnd self = Return self1" "selected_tasks self1 = Some sel"
        "self' = self1\<lparr>selected_tasks := Some (sel[0 := [num_loc (env_generator pl)]])\<rparr>"
      and ne: "sel \<noteq> []" by blast
    from ne have "py_index (sel[0 := [num_loc (env_generator pl)]]) 0
                 = Inr [num_loc (env_generator pl)]"
      by (cases sel) (simp_all add: py_index_def)
    with a show "\<exists>self1 sel. sample_task rnd self = Return self1
            \<and> selected_tasks self1 = Some sel
            \<and> self' = self1\<lparr>selected_tasks :=
                               Some (sel[0 := [num_loc (env_generator pl)]])\<rparr>
            \<and> py_index (sel[0 := [num_loc (env_generator pl)]]) 0
                 = Inr [num_loc (env_generator pl)]"
      by (intro exI [of _ self1] exI [of _ sel] conjI)
  qed
  show "\<forall>e s. sample_task rnd self = Raise e s \<longrightarrow> on_fit_start rnd self pl = Raise e s"
    by (simp add: on_fit_start_def)
  show "num_tasks self \<le> 0 \<longrightarrow> (\<exists>s. on_fit_start rnd self pl = Raise IndexError s)"
    by (simp add: on_fit_start_no_tasks)
  show "env_generator (snd (snd (state_of (on_train_epoch_start self2 tr pl)))) = env_generator pl"
    by (rule on_train_epoch_start_generator)
  have "py_index [[50], [[10], [11], [12]] ! (rnd 1 mod 3),
                  [[10], [11], [12]] ! (rnd 2 mod 3), [[10], [11], [12::int]] ! (rnd 3 mod 3)] 0
          \<notin> Inr ` set (task_set fresh_callback)"
    by (simp add: fresh_callback_def py_index_def)
  with on_fit_start_fresh [of rnd]
  show "\<exists>c g s sel. on_fit_start rnd (c :: real ReptileCallback) g = Return s
          \<and> selected_tasks s = Some sel \<and> py_index sel 0 \<notin> Inr ` set (task_set c)"
    by (intro exI [of _ fresh_callback] exI [of _ example_module]
        exI [of _ "fresh_callback\<lparr>selected_tasks :=
               Some [[50], [[10], [11], [12]] ! (rnd 1 mod 3),
                     [[10], [11], [12]] ! (rnd 2 mod 3), [[10], [11], [12]] ! (rnd 3 mod 3)],
             w := Some [1 / 4, 1 / 4, 1 / 4, 1 / 4]\<rparr>"]
        exI [of _ "[[50], [[10], [11], [12]] ! (rnd 1 mod 3),
                     [[10], [11], [12]] ! (rnd 2 mod 3), [[10], [11], [12]] ! (rnd 3 mod 3)]"]
        conjI) simp_all
qed

theorem on_fit_start_first_task_witness:
  "init 4 (1 / 100000) (1 / 2) 10 12 (9 / 10) ''size'' True = Inr fresh_callback
   \<and> task_set fresh_callback \<noteq> [] \<and> 0 < num_tasks fresh_callback
   \<and> selected_tasks fresh_callback = None \<and> w fresh_callback = None
   \<and> sample_task (\<lambda>b. b + 1) fresh_callback =
       Return (fresh_callback\<lparr>selected_tasks := Some [[11], [12], [10], [11]],
                              w := Some [1 / 4, 1 / 4, 1 / 4, 1 / 4]\<rparr>)
   \<and> on_fit_start (\<lambda>b. b + 1) fresh_callback example_module =
       Return (fresh_callback\<lparr>selected_tasks := Some [[50], [12], [10], [11]],
                              w := Some [1 / 4, 1 / 4, 1 / 4, 1 / 4]\<rparr>)
   \<and> num_loc (env_generator example_module) = 50
   \<and> [50] \<notin> set (task_set fresh_callback)"
proof -
  have a: "task_set fresh_callback \<noteq> [] \<and> 0 < num_tasks fresh_callback"
    and b: "selected_tasks fresh_callback = None" "w fresh_callback = None"
      "[50] \<notin> set (task_set fresh_callback)"
    and g: "num_loc (env_generator example_module) = 50"
    by (simp_all add: fresh_callback_def example_module_def)
  have s: "sample_task (\<lambda>b. b + 1) fresh_callback =
       Return (fresh_callback\<lparr>selected_tasks := Some [[11], [12], [10], [11]],
                              w := Some [1 / 4, 1 / 4, 1 / 4, 1 / 4]\<rparr>)"
    unfolding sample_task_fresh by simp
  from on_fit_start_first_task [of fresh_callback "\<lambda>b. b + 1" example_module] a
  obtain self1 sel where "sample_task (\<lambda>b. b + 1) fresh_callback = Return self1"
    and "selected_tasks self1 = Some sel"
    and "on_fit_start (\<lambda>b. b + 1) fresh_callback example_module =
             Return (self1\<lparr>selected_tasks :=
                              Some (sel[0 := [num_loc (env_generator example_module)]])\<rparr>)"
    by blast
  with s g have f: "on_fit_start (\<lambda>b. b + 1) fresh_callback example_module =
       Return (fresh_callback\<lparr>selected_tasks := Some [[50], [12], [10], [11]],
                              w := Some [1 / 4, 1 / 4, 1 / 4, 1 / 4]\<rparr>)"
    by auto
  from init_fresh a b g s f show ?thesis by (simp only: simp_thms)
qed


section \<open>The outer-loop update\<close>

lemma task_deltas_present:
  "\<forall>fw\<in>set tms. map_of fw k \<noteq> None \<Longrightarrow>
   task_deltas k m tms = Inr (map (\<lambda>fw. the (map_of fw k) - m) tms)"
  by (induction tms) auto

lemma task_deltas_missing:
  "\<exists>fw\<in>set tms. map_of fw k = None \<Longrightarrow> task_deltas k m tms = Inl (KeyError k)"
proof (induction tms)
  case Nil
  then show ?case by simp
next
  case (Cons fw tms)
  show ?case
  proof (cases "map_of fw k")
    case None
    then show ?thesis by simp
  next
    case (Some v)
    with Cons.prems have "\<exists>fw\<in>set tms. map_of fw k = None" by auto
    with Cons.IH Some show ?thesis by simp
  qed
qed

lemma outer_loop_update_present:
  assumes "tms \<noteq> []"
  shows "\<forall>k\<in>fst ` set meta. \<forall>fw\<in>set tms. map_of fw k \<noteq> None \<Longrightarrow>
   outer_loop_update a tms meta = Inr (map (\<lambda>(k, m). (k, reptile_step a tms k m)) meta)"
proof (induction meta)
  case Nil
  then show ?case by simp
next
  case (Cons km meta)
  obtain k m where km: "km = (k, m)" by (cases km)
  from Cons.prems km have here: "\<forall>fw\<in>set tms. map_of fw k \<noteq> None" by simp
  from Cons.prems have "\<forall>k\<in>fst ` set meta. \<forall>fw\<in>set tms. map_of fw k \<noteq> None" by simp
  with Cons.IH have rest:
    "outer_loop_update a tms meta = Inr (map (\<lambda>(k, m). (k, reptile_step a tms k m)) meta)"
    by simp
  show ?case
    using assms by (simp add: km task_deltas_present [OF here] stack_mean_def rest reptile_step_def)
qed

lemma outer_loop_update_missing:
  assumes "fw \<in> set tms" and "map_of fw k = None"
  shows "k \<in> fst ` set meta \<Longrightarrow>
    \<exists>k'. outer_loop_update a tms meta = Inl (KeyError k')
         \<and> k' \<in> fst ` set meta \<and> (\<exists>fw\<in>set tms. map_of fw k' = None)"
proof (induction meta)
  case Nil
  then show ?case by simp
next
  case (Cons km meta)
  obtain k0 m0 where km: "km = (k0, m0)" by (cases km)
  have ne: "tms \<noteq> []" using assms(1) by auto
  show ?case
  proof (cases "\<exists>fw\<in>set tms. map_of fw k0 = None")
    case True
    then show ?thesis
      by (auto simp add: km task_deltas_missing)
  next
    case False
    then have here: "\<forall>fw\<in>set tms. map_of fw k0 \<noteq> None" by simp
    with assms have "k \<noteq> k0" by auto
    with Cons.prems km have "k \<in> fst ` set meta" by auto
    from Cons.IH [OF this] obtain k' where
      "outer_loop_update a tms meta = Inl (KeyError k')" "k' \<in> fst ` set meta"
      "\<exists>fw\<in>set tms. map_of fw k' = None" by blast
    then show ?thesis
      using ne by (auto simp add: km task_deltas_present [OF here] stack_mean_def)
  qed
qed

lemma map_of_reptile:
  "map_of (map (\<lambda>(k, m). (k, f k m)) meta) k = map_option (f k) (map_of meta k)"
  by (induction meta) auto

lemma load_task_state_dict:
  "load_task self pl i = Inr pl' \<Longrightarrow> state_dict pl' = state_dict pl"
  by (auto simp add: load_task_def Let_def split: option.splits sum.splits if_splits)

lemma sample_task_fields:
  "task_models (state_of (sample_task rnd self)) = task_models self"
  "meta_model_state_dict (state_of (sample_task rnd self)) = meta_model_state_dict self"
  "alpha (state_of (sample_task rnd self)) = alpha self"
  "num_tasks (state_of (sample_task rnd self)) = num_tasks self"
  by (simp_all add: sample_task_def Let_def split: sum.splits prod.splits)

lemma epoch_end_tail_state_dict:
  "state_dict (snd (state_of
     (case (if b then
              (case sample_task rnd self2 of
                 Raise e self3 \<Rightarrow> Raise e (self3, pl2)
               | Return self3 \<Rightarrow> Return (self3, pl2))
            else Return (self2, pl2)) of
        Raise e s \<Rightarrow> Raise e s
      | Return (self3, pl3) \<Rightarrow>
         (case load_task self3 pl3 r of
            Inl e \<Rightarrow> Raise e (self3, pl3)
          | Inr pl4 \<Rightarrow> Return (self3, pl4))))) = state_dict pl2"
  by (auto simp add: load_task_state_dict split: outcome.splits sum.splits)

lemmas epoch_end_tail =
  epoch_end_tail_state_dict [where b = True, simplified]
  epoch_end_tail_state_dict [where b = False, simplified]

lemma on_train_epoch_end_aggregate:
  assumes tm: "task_models self = Some tms"
    and mm: "meta_model_state_dict self = Some meta"
    and n0: "num_tasks self \<noteq> 0"
    and ep: "(current_epoch tr + 1) mod num_tasks self = 0"
    and keys: "\<forall>k\<in>fst ` set meta. \<forall>fw\<in>set (tms @ [state_dict pl]). map_of fw k \<noteq> None"
  shows "state_dict (snd (state_of (on_train_epoch_end rnd self tr pl))) =
     map (\<lambda>(k, m). (k, reptile_step (alpha self) (tms @ [state_dict pl]) k m)) meta"
proof -
  have ne: "tms @ [state_dict pl] \<noteq> []" by simp
  note upd = outer_loop_update_present [OF ne keys, of "alpha self"]
  show ?thesis
    unfolding on_train_epoch_end_def
    by (simp add: tm mm n0 ep py_mod_def upd epoch_end_tail del: set_append)
qed

text \<open>
  Claim C1. At the end of an epoch \<open>e\<close> with \<open>(e + 1) mod num_tasks = 0\<close>, when the task
  snapshots (those of the meta-epoch so far and the one this call appends) are \<open>num_tasks\<close>
  many, as they are in every run from epoch 0, and each holds every key of the meta
  parameters, the parameters loaded into the
  live model are, for every key \<open>k\<close> with meta parameter \<open>m\<close>,
  \<open>m + alpha * mean over the snapshots of (snapshot[k] - m)\<close>. This is so whether the
  resampling and task loading that follow return or raise.
\<close>

theorem reptile_outer_loop_update:
  assumes tm: "task_models self = Some tms"
    and mm: "meta_model_state_dict self = Some meta"
    and ep: "(current_epoch tr + 1) mod num_tasks self = 0"
    and cnt: "int (length (tms @ [state_dict pl])) = num_tasks self"
    and keys: "\<forall>k\<in>fst ` set meta. \<forall>fw\<in>set (tms @ [state_dict pl]). map_of fw k \<noteq> None"
    and k: "map_of meta k = Some m"
  shows "map_of (state_dict (snd (state_of (on_train_epoch_end rnd self tr pl)))) k =
     Some (m + alpha self *\<^sub>R
            ((1 / real_of_int (num_tasks self)) *\<^sub>R
               (\<Sum>fw\<leftarrow>tms @ [state_dict pl]. the (map_of fw k) - m)))"
proof -
  from cnt have n0: "num_tasks self \<noteq> 0" by auto
  have len: "real (length (tms @ [state_dict pl])) = real_of_int (num_tasks self)"
    using cnt by (metis of_int_of_nat_eq)
  show ?thesis
    unfolding on_train_epoch_end_aggregate [OF tm mm n0 ep keys] map_of_reptile
    by (simp only: k option.map reptile_step_def len)
qed

theorem reptile_outer_loop_update_witness:
  "task_models adapted_callback = Some [[(''weight'', 3)]]
   \<and> meta_model_state_dict adapted_callback = Some [(''weight'', 1)]
   \<and> (current_epoch example_trainer + 1) mod num_tasks adapted_callback = 0
   \<and> int (length ([[(''weight'', 3)]] @ [state_dict adapted_module])) = num_tasks adapted_callback
   \<and> map_of (state_dict (snd (state_of
         (on_train_epoch_end (\<lambda>b. b) adapted_callback example_trainer adapted_module))))
       ''weight'' = Some (5 / 2)"
proof -
  have tm: "task_models adapted_callback = Some [[(''weight'', 3)]]"
    and mm: "meta_model_state_dict adapted_callback = Some [(''weight'', 1)]"
    and ep: "(current_epoch example_trainer + 1) mod num_tasks adapted_callback = 0"
    and cnt: "int (length ([[(''weight'', 3)]] @ [state_dict adapted_module]))
                = num_tasks adapted_callback"
    and keys: "\<forall>k\<in>fst ` set [(''weight'', 1::real)].
                 \<forall>fw\<in>set ([[(''weight'', 3)]] @ [state_dict adapted_module]).
                   map_of fw k \<noteq> None"
    and k: "map_of [(''weight'', 1::real)] ''weight'' = Some 1"
    by (simp_all add: adapted_callback_def adapted_module_def example_trainer_def)
  from reptile_outer_loop_update [OF tm mm ep cnt keys k, of "\<lambda>b. b"]
  have "map_of (state_dict (snd (state_of
         (on_train_epoch_end (\<lambda>b. b) adapted_callback example_trainer adapted_module))))
       ''weight'' = Some (5 / 2)"
    by (simp add: adapted_callback_def adapted_module_def)
  with tm mm ep cnt show ?thesis by simp
qed

lemma sum_list_zero_deltas:
  "\<forall>fw\<in>set tms. map_of fw k = Some m \<Longrightarrow>
   (\<Sum>fw\<leftarrow>tms. the (map_of fw k) - m) = (0 :: 't::real_vector)"
  by (induction tms) simp_all

text \<open>
  Claim C5. If every task snapshot, the current model included, is identical to the meta
  parameters, the outer-loop update loads parameters equal to the meta parameters for
  every key.
\<close>

theorem reptile_identical_snapshots:
  assumes tm: "task_models self = Some tms"
    and mm: "meta_model_state_dict self = Some meta"
    and n0: "num_tasks self \<noteq> 0"
    and ep: "(current_epoch tr + 1) mod num_tasks self = 0"
    and same: "\<forall>fw\<in>set (tms @ [state_dict pl]). fw = meta"
  shows "map_of (state_dict (snd (state_of (on_train_epoch_end rnd self tr pl)))) k
           = map_of meta k"
proof -
  have keys: "\<forall>k\<in>fst ` set meta. \<forall>fw\<in>set (tms @ [state_dict pl]). map_of fw k \<noteq> None"
  proof (intro ballI)
    fix k fw assume "k \<in> fst ` set meta" and "fw \<in> set (tms @ [state_dict pl])"
    then have "fw = meta" and "k \<in> fst ` set meta"
      by (simp_all only: same [rule_format])
    then show "map_of fw k \<noteq> None" by (simp only: map_of_eq_None_iff not_not)
  qed
  show ?thesis
  proof (cases "map_of meta k")
    case None
    then show ?thesis
      unfolding on_train_epoch_end_aggregate [OF tm mm n0 ep keys] map_of_reptile by simp
  next
    case (Some m)
    have "\<forall>fw\<in>set (tms @ [state_dict pl]). map_of fw k = Some m"
    proof
      fix fw assume "fw \<in> set (tms @ [state_dict pl])"
      then have "fw = meta" by (rule same [rule_format])
      with Some show "map_of fw k = Some m" by (simp only:)
    qed
    then have z: "(\<Sum>fw\<leftarrow>tms @ [state_dict pl]. the (map_of fw k) - m) = 0"
      by (rule sum_list_zero_deltas)
    have "reptile_step (alpha self) (tms @ [state_dict pl]) k m = m"
      unfolding reptile_step_def z by simp
    with Some show ?thesis
      unfolding on_train_epoch_end_aggregate [OF tm mm n0 ep keys] map_of_reptile by simp
  qed
qed

theorem reptile_identical_snapshots_witness:
  "task_models unadapted_callback = Some [[(''weight'', 5), (''bias'', 2)]]
   \<and> meta_model_state_dict unadapted_callback = Some [(''weight'', 5), (''bias'', 2)]
   \<and> num_tasks unadapted_callback \<noteq> 0
   \<and> (current_epoch example_trainer + 1) mod num_tasks unadapted_callback = 0
   \<and> state_dict unadapted_module = [(''weight'', 5), (''bias'', 2)]
   \<and> map_of (state_dict (snd (state_of
         (on_train_epoch_end (\<lambda>b. b) unadapted_callback example_trainer unadapted_module))))
       ''bias'' = Some 2"
proof -
  have tm: "task_models unadapted_callback = Some [[(''weight'', 5), (''bias'', 2)]]"
    and mm: "meta_model_state_dict unadapted_callback = Some [(''weight'', 5), (''bias'', 2)]"
    and n0: "num_tasks unadapted_callback \<noteq> 0"
    and ep: "(current_epoch example_trainer + 1) mod num_tasks unadapted_callback = 0"
    and sd: "state_dict unadapted_module = [(''weight'', 5), (''bias'', 2)]"
    by (simp_all add: unadapted_callback_def adapted_callback_def unadapted_module_def
        adapted_module_def example_trainer_def)
  have same: "\<forall>fw\<in>set ([[(''weight'', 5), (''bias'', 2)]] @ [state_dict unadapted_module]).
                fw = [(''weight'', 5::real), (''bias'', 2)]"
    by (simp add: sd)
  from reptile_identical_snapshots [OF tm mm n0 ep same, of "\<lambda>b. b" "''bias''"]
  have "map_of (state_dict (snd (state_of
         (on_train_epoch_end (\<lambda>b. b) unadapted_callback example_trainer unadapted_module))))
       ''bias'' = Some 2"
    by simp
  with tm mm n0 ep sd show ?thesis by simp
qed

text \<open>
  Claim C8. If some task snapshot lacks a key of the meta parameters, the aggregation
  raises \<open>KeyError\<close> for a key of the meta parameters that a snapshot lacks, and at the raise
  the live model is as it was before the hook: nothing has been loaded.
\<close>

theorem aggregation_missing_key_raises:
  assumes tm: "task_models self = Some tms"
    and mm: "meta_model_state_dict self = Some meta"
    and n0: "num_tasks self \<noteq> 0"
    and ep: "(current_epoch tr + 1) mod num_tasks self = 0"
    and k: "k \<in> fst ` set meta"
    and fw: "fw \<in> set (tms @ [state_dict pl])"
    and missing: "map_of fw k = None"
  shows "\<exists>k'. on_train_epoch_end rnd self tr pl =
            Raise (KeyError k') (self\<lparr>task_models := Some (tms @ [state_dict pl])\<rparr>, pl)
          \<and> k' \<in> fst ` set meta
          \<and> (\<exists>fw\<in>set (tms @ [state_dict pl]). map_of fw k' = None)"
proof -
  from outer_loop_update_missing [OF fw missing k, of "alpha self"]
  obtain k' where upd: "outer_loop_update (alpha self) (tms @ [state_dict pl]) meta
      = Inl (KeyError k')"
    and k': "k' \<in> fst ` set meta" "\<exists>fw\<in>set (tms @ [state_dict pl]). map_of fw k' = None"
    by blast
  have "on_train_epoch_end rnd self tr pl =
            Raise (KeyError k') (self\<lparr>task_models := Some (tms @ [state_dict pl])\<rparr>, pl)"
    unfolding on_train_epoch_end_def
    by (simp add: tm mm n0 ep py_mod_def upd)
  with k' show ?thesis by blast
qed

theorem aggregation_missing_key_raises_witness:
  "task_models unadapted_callback = Some [[(''weight'', 5), (''bias'', 2)]]
   \<and> meta_model_state_dict unadapted_callback = Some [(''weight'', 5), (''bias'', 2)]
   \<and> num_tasks unadapted_callback \<noteq> 0
   \<and> (current_epoch example_trainer + 1) mod num_tasks unadapted_callback = 0
   \<and> map_of (state_dict partial_module) ''weight'' = None
   \<and> on_train_epoch_end (\<lambda>b. b) unadapted_callback example_trainer partial_module =
        Raise (KeyError ''weight'')
          (unadapted_callback\<lparr>task_models :=
               Some [[(''weight'', 5), (''bias'', 2)], [(''bias'', 2)]]\<rparr>, partial_module)"
proof -
  have tm: "task_models unadapted_callback = Some [[(''weight'', 5), (''bias'', 2)]]"
    and mm: "meta_model_state_dict unadapted_callback = Some [(''weight'', 5), (''bias'', 2)]"
    and n0: "num_tasks unadapted_callback \<noteq> 0"
    and ep: "(current_epoch example_trainer + 1) mod num_tasks unadapted_callback = 0"
    and sd: "state_dict partial_module = [(''bias'', 2)]"
    by (simp_all add: unadapted_callback_def adapted_callback_def partial_module_def
        adapted_module_def example_trainer_def)
  have k: "''weight'' \<in> fst ` set [(''weight'', 5::real), (''bias'', 2)]"
    and fw: "state_dict partial_module
               \<in> set ([[(''weight'', 5), (''bias'', 2)]] @ [state_dict partial_module])"
    and missing: "map_of (state_dict partial_module) ''weight'' = None"
    by (simp_all add: sd)
  from aggregation_missing_key_raises [OF tm mm n0 ep k fw missing, of "\<lambda>b. b"]
  obtain k' where r: "on_train_epoch_end (\<lambda>b. b) unadapted_callback example_trainer
        partial_module =
        Raise (KeyError k')
          (unadapted_callback\<lparr>task_models :=
               Some ([[(''weight'', 5), (''bias'', 2)]] @ [state_dict partial_module])\<rparr>,
           partial_module)"
    and k': "k' \<in> fst ` set [(''weight'', 5::real), (''bias'', 2)]"
      "\<exists>fw\<in>set ([[(''weight'', 5), (''bias'', 2)]] @ [state_dict partial_module]).
          map_of fw k' = None"
    by blast
  from k' have "k' = ''weight''" by (auto simp add: sd)
  with r tm mm n0 ep missing show ?thesis by (simp add: sd)
qed

section \<open>The snapshots of a meta-epoch\<close>

text \<open>
  In a run of the host loop from epoch 0 with a positive \<open>num_tasks\<close>, the end hook of an
  epoch \<open>e\<close> with \<open>(e + 1) mod num_tasks = 0\<close> finds, after its append, exactly \<open>num_tasks\<close>
  task snapshots, and the meta parameters are set.
\<close>

lemma on_train_epoch_start_returns:
  assumes "on_train_epoch_start self tr pl = Return (self1, tr1, pl1)"
  shows "num_tasks self1 = num_tasks self \<and> current_epoch tr1 = current_epoch tr
    \<and> num_tasks self \<noteq> 0
    \<and> task_models self1 =
         (if current_epoch tr mod num_tasks self = 0 then Some [] else task_models self)
    \<and> meta_model_state_dict self1 \<noteq> None"
proof (cases "num_tasks self = 0")
  case True
  with assms show ?thesis
    by (simp add: on_train_epoch_start_def py_mod_def alpha_scheduler_def)
next
  case n0: False
  show ?thesis
  proof (cases "current_epoch tr mod num_tasks self = 0")
    case True
    with n0 assms show ?thesis
      by (auto simp add: on_train_epoch_start_def py_mod_def alpha_scheduler_def Let_def
          split: if_splits)
  next
    case False
    with n0 assms show ?thesis
      by (cases "meta_model_state_dict self")
         (auto simp add: on_train_epoch_start_def py_mod_def alpha_scheduler_def Let_def)
  qed
qed

lemma load_task_cases:
  "(case load_task self pl r of Inl e \<Rightarrow> Raise e (self, pl) | Inr pl4 \<Rightarrow> Return (self, pl4))
     = Return (self2, pl3) \<Longrightarrow> self2 = self"
  by (cases "load_task self pl r") simp_all

lemma sample_task_returns:
  "sample_task rnd self = Return self' \<Longrightarrow>
   task_models self' = task_models self \<and> num_tasks self' = num_tasks self"
  using sample_task_fields(1,4) [of rnd self] by simp

lemma on_train_epoch_end_returns:
  assumes "on_train_epoch_end rnd self tr pl = Return (self2, pl3)"
  shows "num_tasks self2 = num_tasks self
    \<and> (\<exists>tms. task_models self = Some tms \<and> task_models self2 = Some (tms @ [state_dict pl]))"
proof (cases "task_models self")
  case None
  with assms show ?thesis by (simp add: on_train_epoch_end_def)
next
  case (Some tms)
  show ?thesis
  proof (cases "num_tasks self = 0")
    case True
    with assms Some show ?thesis by (simp add: on_train_epoch_end_def py_mod_def)
  next
    case n0: False
    let ?self1 = "self\<lparr>task_models := Some (tms @ [state_dict pl])\<rparr>"
    show ?thesis
    proof (cases "(current_epoch tr + 1) mod num_tasks self = 0")
      case False
      with assms Some n0 have "self2 = ?self1"
        by (auto simp add: on_train_epoch_end_def py_mod_def Let_def split: sum.splits)
      with Some show ?thesis by simp
    next
      case True
      with assms Some n0 obtain self3 where "sample_task rnd ?self1 = Return self3"
        and "self2 = self3"
        by (auto simp add: on_train_epoch_end_def py_mod_def Let_def
            split: sum.splits option.splits outcome.splits)
      with sample_task_returns [of rnd ?self1 self3] Some show ?thesis by simp
    qed
  qed
qed

lemma int_mod_succ:
  fixes a n :: int
  assumes "0 < n" and "(a + 1) mod n \<noteq> 0"
  shows "(a + 1) mod n = a mod n + 1"
proof -
  have eq: "(a + 1) mod n = (a mod n + 1) mod n" by (simp add: mod_add_left_eq)
  have r: "0 \<le> a mod n" "a mod n < n" using assms(1) by simp_all
  have "a mod n + 1 \<noteq> n"
  proof
    assume "a mod n + 1 = n"
    with eq have "(a + 1) mod n = 0" by simp
    with assms(2) show False by simp
  qed
  with r have "a mod n + 1 < n" by simp
  with r(1) have "(a mod n + 1) mod n = a mod n + 1" by (simp add: mod_pos_pos_trivial)
  with eq show ?thesis by simp
qed

lemma train_epoch_returns:
  assumes "train_epoch rnd fit (self, tr, pl) = Return (self', tr', pl')"
  shows "\<exists>self1 tr1 pl1 pl3.
      on_train_epoch_start self tr pl = Return (self1, tr1, pl1)
    \<and> on_train_epoch_end rnd self1 tr1 (pl1\<lparr>state_dict := fit (state_dict pl1)\<rparr>)
         = Return (self', pl3)
    \<and> current_epoch tr' = current_epoch tr1 + 1"
  using assms
  by (auto simp add: Let_def split: outcome.splits prod.splits)

lemma fit_loop_invariant:
  assumes "0 < num_tasks self0" and "current_epoch tr0 = 0"
  shows "fit_loop k rnd fit (self0, tr0, pl0) = Return (self, tr, pl) \<Longrightarrow>
     current_epoch tr = int k \<and> num_tasks self = num_tasks self0
     \<and> (0 < k \<longrightarrow> (\<exists>tms. task_models self = Some tms
            \<and> int (length tms) = (int k - 1) mod num_tasks self0 + 1))"
proof (induction k arbitrary: self tr pl)
  case 0
  with assms show ?case by simp
next
  case (Suc k)
  from Suc.prems obtain selfk trk plk where
    k: "fit_loop k rnd fit (self0, tr0, pl0) = Return (selfk, trk, plk)"
    and step: "train_epoch (rnd k) (fit k) (selfk, trk, plk) = Return (self, tr, pl)"
    by (auto split: outcome.splits)
  from Suc.IH [OF k] have ek: "current_epoch trk = int k"
    and nk: "num_tasks selfk = num_tasks self0"
    and tk: "0 < k \<longrightarrow> (\<exists>tms. task_models selfk = Some tms
            \<and> int (length tms) = (int k - 1) mod num_tasks self0 + 1)"
    by simp_all
  from train_epoch_returns [OF step] obtain self1 tr1 pl1 pl3 where
    st: "on_train_epoch_start selfk trk plk = Return (self1, tr1, pl1)"
    and en: "on_train_epoch_end (rnd k) self1 tr1 (pl1\<lparr>state_dict := fit k (state_dict pl1)\<rparr>)
         = Return (self, pl3)"
    and e': "current_epoch tr = current_epoch tr1 + 1"
    by blast
  note s = on_train_epoch_start_returns [OF st]
  note e = on_train_epoch_end_returns [OF en]
  from s e ek nk e' have a: "current_epoch tr = int (Suc k)" "num_tasks self = num_tasks self0"
    by simp_all
  from e obtain tms where t1: "task_models self1 = Some tms"
    and t2: "task_models self = Some (tms @ [fit k (state_dict pl1)])"
    by auto
  have "int (length tms) = int k mod num_tasks self0"
  proof (cases "int k mod num_tasks self0 = 0")
    case True
    with s t1 ek nk show ?thesis by simp
  next
    case False
    then have "0 < k" by (cases k) simp_all
    with tk obtain tmsk where "task_models selfk = Some tmsk"
      and "int (length tmsk) = (int k - 1) mod num_tasks self0 + 1" by blast
    moreover from False s t1 ek nk have "task_models selfk = Some tms" by simp
    moreover from int_mod_succ [OF assms(1), of "int k - 1"] False
    have "int k mod num_tasks self0 = (int k - 1) mod num_tasks self0 + 1" by simp
    ultimately show ?thesis by simp
  qed
  with t2 have "\<exists>tms. task_models self = Some tms
            \<and> int (length tms) = (int (Suc k) - 1) mod num_tasks self0 + 1"
    by simp
  with a show ?case by blast
qed

lemma snapshots_count_in_run:
  assumes n: "0 < num_tasks self0" and e0: "current_epoch tr0 = 0"
    and run: "fit_loop k rnd fit (self0, tr0, pl0) = Return (self, tr, pl)"
    and st: "on_train_epoch_start self tr pl = Return (self1, tr1, pl1)"
    and ep: "(current_epoch tr1 + 1) mod num_tasks self1 = 0"
  shows "\<exists>tms meta. task_models self1 = Some tms \<and> meta_model_state_dict self1 = Some meta
    \<and> int (length (tms @ [sd])) = num_tasks self1"
proof -
  note i = fit_loop_invariant [OF n e0 run]
  note s = on_train_epoch_start_returns [OF st]
  from i s have ek: "current_epoch tr1 = int k" and nk: "num_tasks self1 = num_tasks self0"
    by simp_all
  from s obtain meta where mm: "meta_model_state_dict self1 = Some meta" by auto
  have "\<exists>tms. task_models self1 = Some tms \<and> int (length tms) = int k mod num_tasks self0"
  proof (cases "int k mod num_tasks self0 = 0")
    case True
    with s i show ?thesis by simp
  next
    case False
    then have "0 < k" by (cases k) simp_all
    with i obtain tmsk where "task_models self = Some tmsk"
      and "int (length tmsk) = (int k - 1) mod num_tasks self0 + 1" by blast
    moreover from False s i have "task_models self1 = task_models self" by simp
    moreover from int_mod_succ [OF n, of "int k - 1"] False
    have "int k mod num_tasks self0 = (int k - 1) mod num_tasks self0 + 1" by simp
    ultimately show ?thesis by simp
  qed
  then obtain tms where tm: "task_models self1 = Some tms"
    and len: "int (length tms) = int k mod num_tasks self0" by blast
  have "int k mod num_tasks self0 + 1 = num_tasks self0"
  proof (rule ccontr)
    assume neq: "int k mod num_tasks self0 + 1 \<noteq> num_tasks self0"
    have r: "0 \<le> int k mod num_tasks self0" "int k mod num_tasks self0 < num_tasks self0"
      using n by simp_all
    with neq have "int k mod num_tasks self0 + 1 < num_tasks self0" by simp
    with r(1) have "(int k mod num_tasks self0 + 1) mod num_tasks self0
        = int k mod num_tasks self0 + 1" by (simp add: mod_pos_pos_trivial)
    moreover have "(int k + 1) mod num_tasks self0
        = (int k mod num_tasks self0 + 1) mod num_tasks self0" by (simp add: mod_add_left_eq)
    ultimately have "(int k + 1) mod num_tasks self0 \<noteq> 0" using r(1) by simp
    with ep ek nk show False by simp
  qed
  with tm mm len nk show ?thesis by simp
qed

lemma sample_task_adapted:
  "num_tasks c = 2 \<Longrightarrow> task_set c = [[10]] \<Longrightarrow>
   sample_task rnd c = Return (c\<lparr>selected_tasks := Some [[10], [10]], w := Some [1 / 2, 1 / 2]\<rparr>)"
  by (simp add: sample_task_nonempty upt_rec numeral_2_eq_2)

lemma fit_loop_example:
  "fit_loop 2 (\<lambda>k b. b) (\<lambda>k. map (\<lambda>(key, v). (key, v + 1)))
      (adapted_callback, start_trainer, adapted_module) =
   Return (adapted_callback\<lparr>alpha := 1 / 8,
             meta_model_state_dict := Some [(''weight'', 5)],
             task_models := Some [[(''weight'', 6)], [(''weight'', 6)]]\<rparr>,
           start_trainer\<lparr>current_epoch := 2\<rparr>,
           adapted_module\<lparr>state_dict := [(''weight'', 41 / 8)]\<rparr>)"
proof -
  have e0: "train_epoch (\<lambda>b. b) (map (\<lambda>(key, v). (key, v + 1)))
      (adapted_callback, start_trainer, adapted_module) =
    Return (adapted_callback\<lparr>alpha := 1 / 4,
             meta_model_state_dict := Some [(''weight'', 5)],
             task_models := Some [[(''weight'', 6)]]\<rparr>,
           start_trainer\<lparr>current_epoch := 1\<rparr>,
           adapted_module\<lparr>state_dict := [(''weight'', 6)]\<rparr>)"
    by (simp add: on_train_epoch_start_def on_train_epoch_end_def alpha_scheduler_def
        py_mod_def py_int_def load_task_def py_index_def task_capacity_def
        adapted_callback_def start_trainer_def adapted_module_def)
  have e1: "train_epoch (\<lambda>b. b) (map (\<lambda>(key, v). (key, v + 1)))
      (adapted_callback\<lparr>alpha := 1 / 4,
             meta_model_state_dict := Some [(''weight'', 5)],
             task_models := Some [[(''weight'', 6)]]\<rparr>,
           start_trainer\<lparr>current_epoch := 1\<rparr>,
           adapted_module\<lparr>state_dict := [(''weight'', 6)]\<rparr>) =
    Return (adapted_callback\<lparr>alpha := 1 / 8,
             meta_model_state_dict := Some [(''weight'', 5)],
             task_models := Some [[(''weight'', 6)], [(''weight'', 6)]]\<rparr>,
           start_trainer\<lparr>current_epoch := 2\<rparr>,
           adapted_module\<lparr>state_dict := [(''weight'', 41 / 8)]\<rparr>)"
    by (simp add: on_train_epoch_start_def on_train_epoch_end_def alpha_scheduler_def
        py_mod_def py_int_def load_task_def py_index_def task_capacity_def stack_mean_def
        sample_task_adapted
        adapted_callback_def start_trainer_def adapted_module_def)
  show ?thesis
    by (simp add: numeral_2_eq_2 e0 e1 del: train_epoch.simps)
qed

section \<open>The epoch schedule\<close>

lemma on_train_epoch_start_snapshot:
  assumes "num_tasks self \<noteq> 0" and "current_epoch tr mod num_tasks self = 0"
  shows "meta_model_state_dict (fst (state_of (on_train_epoch_start self tr pl)))
           = Some (state_dict pl)
    \<and> task_models (fst (state_of (on_train_epoch_start self tr pl))) = Some []
    \<and> state_dict (snd (snd (state_of (on_train_epoch_start self tr pl)))) = state_dict pl"
  using assms
  by (simp add: on_train_epoch_start_def py_mod_def alpha_scheduler_def Let_def)

lemma on_train_epoch_start_restore:
  assumes "num_tasks self \<noteq> 0" and "current_epoch tr mod num_tasks self \<noteq> 0"
  shows "meta_model_state_dict (fst (state_of (on_train_epoch_start self tr pl)))
           = meta_model_state_dict self
    \<and> task_models (fst (state_of (on_train_epoch_start self tr pl))) = task_models self
    \<and> (\<forall>m. meta_model_state_dict self = Some m \<longrightarrow>
          (\<exists>s. on_train_epoch_start self tr pl = Return s)
          \<and> state_dict (snd (snd (state_of (on_train_epoch_start self tr pl)))) = m)"
  using assms
  by (cases "meta_model_state_dict self")
     (simp_all add: on_train_epoch_start_def py_mod_def alpha_scheduler_def Let_def)

lemma on_train_epoch_end_plain:
  assumes "num_tasks self \<noteq> 0" and "(current_epoch tr + 1) mod num_tasks self \<noteq> 0"
  shows "state_dict (snd (state_of (on_train_epoch_end rnd self tr pl))) = state_dict pl"
proof (cases "task_models self")
  case None
  then show ?thesis by (simp add: on_train_epoch_end_def)
next
  case (Some tms)
  show ?thesis
    unfolding on_train_epoch_end_def
    using assms
    by (auto simp add: Some py_mod_def Let_def load_task_state_dict split: sum.splits)
qed

lemma on_train_epoch_end_aggregates:
  assumes n0: "num_tasks self \<noteq> 0" and ep: "(current_epoch tr + 1) mod num_tasks self = 0"
    and tm: "task_models self = Some tms" and mm: "meta_model_state_dict self = Some meta"
  shows "case outer_loop_update (alpha self) (tms @ [state_dict pl]) meta of
           Inl e \<Rightarrow> on_train_epoch_end rnd self tr pl =
                      Raise e (self\<lparr>task_models := Some (tms @ [state_dict pl])\<rparr>, pl)
         | Inr sd \<Rightarrow> state_dict (snd (state_of (on_train_epoch_end rnd self tr pl))) = sd"
proof (cases "outer_loop_update (alpha self) (tms @ [state_dict pl]) meta")
  case (Inl e)
  show ?thesis
    unfolding on_train_epoch_end_def
    by (simp add: tm mm n0 ep py_mod_def Inl)
next
  case (Inr sd)
  show ?thesis
    unfolding on_train_epoch_end_def
    by (simp add: tm mm n0 ep py_mod_def Inr epoch_end_tail)
qed

text \<open>
  Claim C2. With \<open>num_tasks = 4\<close> and an epoch index from 0 to 7: at the start of epochs 0
  and 4 the meta parameters become a copy of the current model, the task snapshots are
  cleared and the model is left alone; at the start of every other epoch the meta
  parameters and the snapshots are left alone and the model is reset to the meta
  parameters; at the end of epochs 3 and 7 the model receives the result of the outer-loop
  update (or the hook raises what the update raises, with the model untouched); at the
  end of every other epoch the model's parameters are left alone.
\<close>

theorem epoch_schedule_four_tasks:
  assumes n: "num_tasks self = 4" and e: "0 \<le> current_epoch tr" "current_epoch tr \<le> 7"
  shows "(current_epoch tr \<in> {0, 4} \<longrightarrow>
            meta_model_state_dict (fst (state_of (on_train_epoch_start self tr pl)))
              = Some (state_dict pl)
          \<and> task_models (fst (state_of (on_train_epoch_start self tr pl))) = Some []
          \<and> state_dict (snd (snd (state_of (on_train_epoch_start self tr pl))))
              = state_dict pl)
    \<and> (current_epoch tr \<notin> {0, 4} \<longrightarrow>
            meta_model_state_dict (fst (state_of (on_train_epoch_start self tr pl)))
              = meta_model_state_dict self
          \<and> task_models (fst (state_of (on_train_epoch_start self tr pl)))
              = task_models self
          \<and> (\<forall>m. meta_model_state_dict self = Some m \<longrightarrow>
                (\<exists>s. on_train_epoch_start self tr pl = Return s)
                \<and> state_dict (snd (snd (state_of (on_train_epoch_start self tr pl)))) = m))
    \<and> (current_epoch tr \<in> {3, 7} \<longrightarrow>
          (\<forall>tms meta. task_models self = Some tms \<and> meta_model_state_dict self = Some meta \<longrightarrow>
             (case outer_loop_update (alpha self) (tms @ [state_dict pl]) meta of
                Inl er \<Rightarrow> on_train_epoch_end rnd self tr pl =
                   Raise er (self\<lparr>task_models := Some (tms @ [state_dict pl])\<rparr>, pl)
              | Inr sd \<Rightarrow>
                   state_dict (snd (state_of (on_train_epoch_end rnd self tr pl))) = sd)))
    \<and> (current_epoch tr \<notin> {3, 7} \<longrightarrow>
          state_dict (snd (state_of (on_train_epoch_end rnd self tr pl))) = state_dict pl)"
proof -
  have n0: "num_tasks self \<noteq> 0" using n by simp
  have start: "current_epoch tr mod num_tasks self = 0 \<longleftrightarrow> current_epoch tr \<in> {0, 4}"
    using e unfolding n by (auto; presburger)
  have finish: "(current_epoch tr + 1) mod num_tasks self = 0 \<longleftrightarrow> current_epoch tr \<in> {3, 7}"
    using e unfolding n by (auto; presburger)
  show ?thesis
  proof (intro conjI impI allI)
    assume "current_epoch tr \<in> {0, 4}"
    then have m: "current_epoch tr mod num_tasks self = 0" by (simp only: start)
    note s = on_train_epoch_start_snapshot [OF n0 m, of pl]
    from s show "meta_model_state_dict (fst (state_of (on_train_epoch_start self tr pl)))
              = Some (state_dict pl)" by (rule conjunct1)
    from s show "task_models (fst (state_of (on_train_epoch_start self tr pl))) = Some []"
      by (rule conjunct2 [THEN conjunct1])
    from s show "state_dict (snd (snd (state_of (on_train_epoch_start self tr pl))))
              = state_dict pl" by (rule conjunct2 [THEN conjunct2])
  next
    assume "current_epoch tr \<notin> {0, 4}"
    then have m: "current_epoch tr mod num_tasks self \<noteq> 0" by (simp only: start not_False_eq_True)
    note s = on_train_epoch_start_restore [OF n0 m, of pl]
    from s show "meta_model_state_dict (fst (state_of (on_train_epoch_start self tr pl)))
              = meta_model_state_dict self" by (rule conjunct1)
    from s show "task_models (fst (state_of (on_train_epoch_start self tr pl)))
              = task_models self" by (rule conjunct2 [THEN conjunct1])
    fix m assume mm: "meta_model_state_dict self = Some m"
    from s mm show "\<exists>s. on_train_epoch_start self tr pl = Return s" by (simp only:)
    from s mm show "state_dict (snd (snd (state_of (on_train_epoch_start self tr pl)))) = m"
      by (simp only:)
  next
    fix tms meta
    assume "current_epoch tr \<in> {3, 7}"
      and "task_models self = Some tms \<and> meta_model_state_dict self = Some meta"
    then have m: "(current_epoch tr + 1) mod num_tasks self = 0"
      and tm: "task_models self = Some tms" and mm: "meta_model_state_dict self = Some meta"
      by (simp_all only: finish)
    show "case outer_loop_update (alpha self) (tms @ [state_dict pl]) meta of
                Inl er \<Rightarrow> on_train_epoch_end rnd self tr pl =
                   Raise er (self\<lparr>task_models := Some (tms @ [state_dict pl])\<rparr>, pl)
              | Inr sd \<Rightarrow>
                   state_dict (snd (state_of (on_train_epoch_end rnd self tr pl))) = sd"
      by (rule on_train_epoch_end_aggregates [OF n0 m tm mm])
  next
    assume "current_epoch tr \<notin> {3, 7}"
    then have m: "(current_epoch tr + 1) mod num_tasks self \<noteq> 0"
      by (simp only: finish not_False_eq_True)
    show "state_dict (snd (state_of (on_train_epoch_end rnd self tr pl))) = state_dict pl"
      by (rule on_train_epoch_end_plain [OF n0 m])
  qed
qed

theorem epoch_schedule_four_tasks_witness:
  "num_tasks schedule_callback = 4
   \<and> 0 \<le> current_epoch schedule_trainer \<and> current_epoch schedule_trainer \<le> 7
   \<and> current_epoch schedule_trainer \<notin> {0, 4}
   \<and> current_epoch schedule_trainer \<in> {3, 7}
   \<and> state_dict (snd (snd (state_of
         (on_train_epoch_start schedule_callback schedule_trainer adapted_module))))
       = [(''weight'', 1)]
   \<and> state_dict (snd (state_of
         (on_train_epoch_end (\<lambda>b. b) schedule_callback schedule_trainer adapted_module)))
       = [(''weight'', 7 / 4)]"
proof -
  have n: "num_tasks schedule_callback = 4"
    and e: "0 \<le> current_epoch schedule_trainer" "current_epoch schedule_trainer \<le> 7"
    and c: "current_epoch schedule_trainer \<notin> {0, 4}" "current_epoch schedule_trainer \<in> {3, 7}"
    by (simp_all add: schedule_callback_def example_callback_def schedule_trainer_def)
  have tm: "task_models schedule_callback
              = Some [[(''weight'', 3)], [(''weight'', 1)], [(''weight'', 1)]]"
    and mm: "meta_model_state_dict schedule_callback = Some [(''weight'', 1)]"
    and al: "alpha schedule_callback = 1 / 2"
    and sd: "state_dict adapted_module = [(''weight'', 5)]"
    by (simp_all add: schedule_callback_def example_callback_def adapted_module_def)
  have upd: "outer_loop_update (1 / 2)
       ([[(''weight'', 3)], [(''weight'', 1)], [(''weight'', 1)]] @ [[(''weight'', 5)]])
       [(''weight'', 1::real)] = Inr [(''weight'', 7 / 4)]"
    by (simp add: stack_mean_def)
  note t = epoch_schedule_four_tasks [OF n e, of adapted_module "\<lambda>b. b"]
  from t c mm have a: "state_dict (snd (snd (state_of
         (on_train_epoch_start schedule_callback schedule_trainer adapted_module))))
       = [(''weight'', 1)]"
    by blast
  from t c tm mm have "case outer_loop_update (alpha schedule_callback)
        ([[(''weight'', 3)], [(''weight'', 1)], [(''weight'', 1)]] @ [state_dict adapted_module])
        [(''weight'', 1)] of
                Inl er \<Rightarrow> on_train_epoch_end (\<lambda>b. b) schedule_callback schedule_trainer
                     adapted_module =
                   Raise er (schedule_callback\<lparr>task_models :=
                      Some ([[(''weight'', 3)], [(''weight'', 1)], [(''weight'', 1)]]
                            @ [state_dict adapted_module])\<rparr>, adapted_module)
              | Inr sd \<Rightarrow>
                   state_dict (snd (state_of (on_train_epoch_end (\<lambda>b. b) schedule_callback
                      schedule_trainer adapted_module))) = sd"
    by blast
  then have b: "state_dict (snd (state_of
         (on_train_epoch_end (\<lambda>b. b) schedule_callback schedule_trainer adapted_module)))
       = [(''weight'', 7 / 4)]"
    unfolding al sd upd by simp
  from n e c a b show ?thesis by (simp only: simp_thms)
qed

section \<open>Action mask and reward of the job-shop environment\<close>

text \<open>
  Claim C3 as stated fails. With \<^verbatim>\<open>mask_no_ops\<close> enabled the no-op entry of a finished
  instance is feasible; with \<^verbatim>\<open>mask_no_ops\<close> disabled the no-op entry is feasible while the
  second job is a feasible action (idle, with a free machine), because the first job is
  in process.
\<close>

theorem no_op_mask_counterexample:
  "get_action_mask True (\<lambda>row. [[True, True, True], [True, True, True]]) [finished_td]
     = [[True, False, False]]
   \<and> td_done finished_td
   \<and> get_action_mask False (\<lambda>row. [[True, True, True], [True, False, True]]) [waiting_td]
     = [[True, False, True]]
   \<and> \<not> td_done waiting_td
   \<and> td_job_in_process waiting_td = [True, False]"
  by (simp add: get_action_mask_def finished_td_def waiting_td_def)

text \<open>
  Claim C3, amended. In every row of the mask returned by \<^verbatim>\<open>get_action_mask\<close>, the no-op
  action is feasible exactly when the instance is finished if \<^verbatim>\<open>mask_no_ops\<close> is enabled,
  and exactly when the instance is finished or some job is in process if it is disabled.
\<close>

theorem get_action_mask_no_op:
  "map hd (get_action_mask mask_no_ops get_job_machine_availability td) =
     map (\<lambda>row. if mask_no_ops then td_done row
                else td_done row \<or> True \<in> set (td_job_in_process row)) td"
  by (auto simp add: get_action_mask_def Let_def list_ex_iff)

text \<open>
  Claim C4. For every state of the batch, the reward is 0 when the state is not
  terminal, and at termination it is minus the maximum over the machines of busy-until.
\<close>

theorem get_reward_sparse:
  assumes "i < length td"
  shows "(\<not> td_done (td ! i) \<longrightarrow> get_reward td ! i = 0)
    \<and> (td_done (td ! i) \<and> td_busy_until (td ! i) \<noteq> [] \<longrightarrow>
          get_reward td ! i = - Max (set (td_busy_until (td ! i))))"
proof -
  have "makespan row = Max (set (td_busy_until row))" if "td_busy_until row \<noteq> []" for row
    using that by (cases "td_busy_until row") (simp_all add: makespan_def Max.set_eq_fold [symmetric])
  with assms show ?thesis by (simp add: get_reward_def)
qed

theorem get_reward_sparse_witness:
  "(1::nat) < length [waiting_td, finished_td]
   \<and> 0 < length [waiting_td, finished_td]
   \<and> \<not> td_done ([waiting_td, finished_td] ! 0)
   \<and> td_done ([waiting_td, finished_td] ! 1)
   \<and> td_busy_until ([waiting_td, finished_td] ! 1) \<noteq> []
   \<and> get_reward [waiting_td, finished_td] ! 0 = 0
   \<and> get_reward [waiting_td, finished_td] ! 1 = - 7"
proof -
  have a: "(1::nat) < length [waiting_td, finished_td]"
    and b: "0 < length [waiting_td, finished_td]" by simp_all
  have c: "\<not> td_done ([waiting_td, finished_td] ! 0)"
    "td_done ([waiting_td, finished_td] ! 1)"
    "td_busy_until ([waiting_td, finished_td] ! 1) \<noteq> []"
    by (simp_all add: waiting_td_def finished_td_def)
  have m: "Max (set (td_busy_until ([waiting_td, finished_td] ! 1))) = 7"
    by (simp add: finished_td_def)
  from get_reward_sparse [OF b] c have z: "get_reward [waiting_td, finished_td] ! 0 = 0"
    by blast
  from get_reward_sparse [OF a] c have "get_reward [waiting_td, finished_td] ! 1
      = - Max (set (td_busy_until ([waiting_td, finished_td] ! 1)))"
    by blast
  with m have "get_reward [waiting_td, finished_td] ! 1 = - 7" by simp
  with a b c z show ?thesis by (simp only: simp_thms)
qed

end
